theory Spec2Isabelle
  imports Complex_Main "HOL-Library.Sublist"
begin

section \<open>Python values used by the email classification pipeline\<close>

text \<open>
  Python \<open>float\<close> values (similarity, domain weight, confidence, threshold) are modelled
  as \<open>real\<close>: the code multiplies two of them once and compares them. The subtraction
  \<open>1 - distance\<close> of the vector search is rounded to the nearest double (see
  \<open>float_sub\<close> below), since the range of the similarity depends on it. Python \<open>str\<close>
  is modelled as \<open>string\<close>; the case and whitespace operations below act on the ASCII
  range, which is what sender domains, keywords and the e-mail pattern are written in.
\<close>

datatype error = AttributeError | IndexError | ValidationError | ProviderError

text \<open>A value stored in a ChromaDB metadata dictionary (\<open>Dict[str, Any]\<close>).\<close>

datatype pyval = PyNone | PyBool bool | PyNum real | PyStr string

text \<open>Python truthiness, as used by \<open>not x\<close> and \<open>if x\<close>.\<close>

fun truthy :: "pyval \<Rightarrow> bool" where
  "truthy PyNone = False"
| "truthy (PyBool b) = b"
| "truthy (PyNum x) = (x \<noteq> 0)"
| "truthy (PyStr s) = (s \<noteq> [])"

type_synonym pydict = "(string \<times> pyval) list"

text \<open>\<open>d.get(key, default)\<close>\<close>

definition dict_get :: "pydict \<Rightarrow> string \<Rightarrow> pyval \<Rightarrow> pyval" where
  "dict_get d k dflt = (case map_of d k of None \<Rightarrow> dflt | Some v \<Rightarrow> v)"

subsection \<open>String operations\<close>

definition ascii_uppercase :: string where
  "ascii_uppercase = ''ABCDEFGHIJKLMNOPQRSTUVWXYZ''"

definition ascii_lowercase :: string where
  "ascii_lowercase = ''abcdefghijklmnopqrstuvwxyz''"

definition digits :: string where
  "digits = ''0123456789''"

definition lower_char :: "char \<Rightarrow> char" where
  "lower_char c =
     (case map_of (zip ascii_uppercase ascii_lowercase) c of None \<Rightarrow> c | Some d \<Rightarrow> d)"

definition upper_char :: "char \<Rightarrow> char" where
  "upper_char c =
     (case map_of (zip ascii_lowercase ascii_uppercase) c of None \<Rightarrow> c | Some d \<Rightarrow> d)"

text \<open>\<open>s.lower()\<close>\<close>

definition lower :: "string \<Rightarrow> string" where
  "lower s = map lower_char s"

text \<open>\<open>s.capitalize()\<close>: first character upper-cased, the rest lower-cased.\<close>

fun capitalize :: "string \<Rightarrow> string" where
  "capitalize [] = []"
| "capitalize (c # cs) = upper_char c # lower cs"

text \<open>
  The ASCII characters for which \<open>str.isspace\<close> holds: tab, line feed, vertical tab, form
  feed, carriage return, the four separators 0x1C..0x1F, and space.
\<close>

definition is_space :: "char \<Rightarrow> bool" where
  "is_space c = (c \<in> set [CHR 0x09, CHR 0x0A, CHR 0x0B, CHR 0x0C, CHR 0x0D,
                           CHR 0x1C, CHR 0x1D, CHR 0x1E, CHR 0x1F, CHR 0x20])"

text \<open>\<open>s.strip()\<close>\<close>

definition strip :: "string \<Rightarrow> string" where
  "strip s = rev (dropWhile is_space (rev (dropWhile is_space s)))"

text \<open>\<open>s.split(sep)\<close> for a one-character separator: never returns the empty list.\<close>

fun split :: "char \<Rightarrow> string \<Rightarrow> string list" where
  "split sep [] = [[]]"
| "split sep (c # cs) =
     (if c = sep then [] # split sep cs
      else (case split sep cs of [] \<Rightarrow> [[c]] | w # ws \<Rightarrow> (c # w) # ws))"

text \<open>\<open>sep.join(parts)\<close>\<close>

fun join :: "string \<Rightarrow> string list \<Rightarrow> string" where
  "join sep [] = []"
| "join sep [p] = p"
| "join sep (p # q # ps) = p @ sep @ join sep (q # ps)"

text \<open>\<open>xs[-2:]\<close>\<close>

definition last_two :: "'a list \<Rightarrow> 'a list" where
  "last_two xs = drop (length xs - 2) xs"

text \<open>\<open>s.startswith(t)\<close>, \<open>s.endswith(t)\<close> and \<open>t in s\<close>\<close>

definition startswith :: "string \<Rightarrow> string \<Rightarrow> bool" where
  "startswith s t = prefix t s"

definition endswith :: "string \<Rightarrow> string \<Rightarrow> bool" where
  "endswith s t = prefix (rev t) (rev s)"

fun contains :: "string \<Rightarrow> string \<Rightarrow> bool" where
  "contains [] t = (t = [])"
| "contains (c # cs) t = (prefix t (c # cs) \<or> contains cs t)"

section \<open>Configuration (\<open>app/config.py\<close>)\<close>

record settings =
  confidence_threshold :: real
  exact_domain_weight :: real
  similar_domain_weight :: real
  default_domain_weight :: real
  max_email_length :: nat

definition default_settings :: settings where
  "default_settings =
     \<lparr> confidence_threshold = 0.85,
       exact_domain_weight = 1.0,
       similar_domain_weight = 0.8,
       default_domain_weight = 0.5,
       max_email_length = 10000 \<rparr>"

section \<open>Data model (\<open>app/models.py\<close>)\<close>

datatype EmailCategory = MARKETING | TRANSACTIONAL | SURVEY | PERSONAL | CUSTOMER_SUPPORT

record EmailMetadata =
  sender_domain :: string
  footer_text :: "string option"
  urls :: "string list"

record VectorMatch =
  similarity_score :: real
  domain_weight :: real
  confidence_score :: real
  vm_metadata :: pydict

section \<open>Confidence matcher (\<open>app/services/similarity_matcher.py\<close>)\<close>

definition extract_root_domain :: "string \<Rightarrow> string" where
  "extract_root_domain domain =
     (let parts = split CHR ''.'' domain
      in if length parts \<ge> 2 then join ''.'' (last_two parts) else domain)"

definition common_prefixes :: "string list" where
  "common_prefixes = [''mail'', ''email'', ''smtp'', ''noreply'', ''no-reply'']"

definition are_domains_similar :: "string \<Rightarrow> string \<Rightarrow> bool" where
  "are_domains_similar domain1 domain2 =
     (let root1 = extract_root_domain domain1;
          root2 = extract_root_domain domain2
      in if root1 = root2 then True
         else if endswith domain1 (''.'' @ domain2) \<or> endswith domain2 (''.'' @ domain1) then True
         else list_ex (\<lambda>p.
                (startswith domain1 (p @ ''.'') \<and> drop (length p + 1) domain1 = domain2) \<or>
                (startswith domain2 (p @ ''.'') \<and> drop (length p + 1) domain2 = domain1))
              common_prefixes)"

definition calculate_domain_weight :: "settings \<Rightarrow> string \<Rightarrow> string \<Rightarrow> real" where
  "calculate_domain_weight cfg query_domain candidate_domain =
     (if query_domain = [] \<or> candidate_domain = [] then default_domain_weight cfg
      else
        let query_domain = strip (lower query_domain);
            candidate_domain = strip (lower candidate_domain)
        in if query_domain = candidate_domain then exact_domain_weight cfg
           else if are_domains_similar query_domain candidate_domain
                then similar_domain_weight cfg
           else default_domain_weight cfg)"


text \<open>
  A candidate is the dictionary built by \<open>search_similar_emails\<close> for one neighbour; its
  \<open>metadata\<close> entry is whatever ChromaDB stored for the document, \<open>None\<close> included.
\<close>

record Candidate =
  cand_id :: string
  cand_document :: string
  cand_metadata :: "pydict option"
  cand_distance :: real
  cand_similarity :: real

text \<open>
  \<open>_calculate_confidence_score\<close>. Every exception is caught and turned into \<open>None\<close>:
  \<open>candidate_metadata.get\<close> raises on a \<open>None\<close> metadata, and \<open>candidate_domain.lower()\<close>
  raises on a stored sender domain that is truthy but not a string (a falsy value of any
  type leaves \<open>_calculate_domain_weight\<close> through its first \<open>return\<close>).
\<close>

definition calculate_confidence_score :: "settings \<Rightarrow> Candidate \<Rightarrow> EmailMetadata \<Rightarrow> VectorMatch option" where
  "calculate_confidence_score cfg candidate query_metadata =
     (let similarity = cand_similarity candidate
      in case cand_metadata candidate of
           None \<Rightarrow> None
         | Some candidate_metadata \<Rightarrow>
             (let candidate_domain = dict_get candidate_metadata ''sender_domain'' (PyStr [])
              in case (case candidate_domain of
                         PyStr d \<Rightarrow>
                           Some (calculate_domain_weight cfg (sender_domain query_metadata) d)
                       | v \<Rightarrow>
                           if sender_domain query_metadata = [] \<or> \<not> truthy v
                           then Some (default_domain_weight cfg) else None) of
                   None \<Rightarrow> None
                 | Some weight \<Rightarrow>
                     Some \<lparr> similarity_score = similarity,
                            domain_weight = weight,
                            confidence_score = similarity * weight,
                            vm_metadata = candidate_metadata \<rparr>))"

section \<open>Floating-point subtraction\<close>

text \<open>
  \<open>x - y\<close> on Python floats is the exact difference rounded to the nearest double
  (53 significant bits, ties to the even significand). The difference \<open>1 - distance\<close> of
  a finite double neither overflows nor falls into the subnormal range, so the exponent is
  left unbounded; infinities and NaN are not modelled.
\<close>

definition round_half_even :: "real \<Rightarrow> int" where
  "round_half_even r =
     (let f = \<lfloor>r\<rfloor>
      in if r - of_int f < 1 / 2 then f
         else if r - of_int f > 1 / 2 then f + 1
         else if even f then f else f + 1)"

definition round_to_double :: "real \<Rightarrow> real" where
  "round_to_double x =
     (if x = 0 then 0
      else (let e = \<lfloor>log 2 \<bar>x\<bar>\<rfloor>;
                u = 2 powr of_int (e - 52)
            in sgn x * (of_int (round_half_even (\<bar>x\<bar> / u)) * u)))"

definition float_sub :: "real \<Rightarrow> real \<Rightarrow> real" where
  "float_sub x y = round_to_double (x - y)"

section \<open>Vector store (\<open>app/database/vector_store.py\<close>)\<close>

text \<open>
  The dictionary returned by \<open>collection.query\<close>: one inner list per query embedding.
\<close>

record QueryResult =
  ids :: "string list list"
  documents :: "string list list"
  metadatas :: "pydict option list list"
  distances :: "real list list"

record StoredDoc =
  doc_id :: string
  doc_embedding :: "real list"
  doc_text :: string
  doc_metadata :: pydict

text \<open>
  The service's external collaborators: the embedding provider, the ChromaDB collection's
  nearest-neighbour query and its acceptance of a new document, the text assembled by
  \<open>_create_embedding_text\<close> (which goes through \<open>urlparse\<close> and the iteration order of a
  \<open>set\<close>), and the identifier drawn by \<open>uuid.uuid4\<close>. The collection's content is passed
  explicitly as a list of stored documents.
\<close>

record VectorStoreService =
  create_embedding_text :: "string \<Rightarrow> EmailMetadata \<Rightarrow> string"
  embed_query :: "string \<Rightarrow> error + real list"
  collection_query :: "StoredDoc list \<Rightarrow> real list \<Rightarrow> nat \<Rightarrow> error + QueryResult"
  collection_accepts :: "StoredDoc \<Rightarrow> bool"
  uuid4 :: "StoredDoc list \<Rightarrow> string"

text \<open>\<open>xs[i]\<close> for a non-negative index.\<close>

definition getitem :: "'a list \<Rightarrow> nat \<Rightarrow> error + 'a" where
  "getitem xs i = (if i < length xs then Inr (xs ! i) else Inl IndexError)"

text \<open>One iteration of the loop over \<open>enumerate(results['ids'][0])\<close>.\<close>

definition make_match :: "QueryResult \<Rightarrow> nat \<Rightarrow> string \<Rightarrow> error + Candidate" where
  "make_match results i did =
     (case getitem (documents results) 0 of Inl e \<Rightarrow> Inl e | Inr docs \<Rightarrow>
     (case getitem docs i of Inl e \<Rightarrow> Inl e | Inr doc \<Rightarrow>
     (case getitem (metadatas results) 0 of Inl e \<Rightarrow> Inl e | Inr mds \<Rightarrow>
     (case getitem mds i of Inl e \<Rightarrow> Inl e | Inr md \<Rightarrow>
     (case getitem (distances results) 0 of Inl e \<Rightarrow> Inl e | Inr dsts \<Rightarrow>
     (case getitem dsts i of Inl e \<Rightarrow> Inl e | Inr d \<Rightarrow>
        Inr \<lparr> cand_id = did, cand_document = doc, cand_metadata = md,
              cand_distance = d, cand_similarity = float_sub 1 d \<rparr>))))))"

fun make_matches :: "QueryResult \<Rightarrow> (nat \<times> string) list \<Rightarrow> error + Candidate list" where
  "make_matches results [] = Inr []"
| "make_matches results ((i, did) # rest) =
     (case make_match results i did of
        Inl e \<Rightarrow> Inl e
      | Inr m \<Rightarrow> (case make_matches results rest of Inl e \<Rightarrow> Inl e | Inr ms \<Rightarrow> Inr (m # ms)))"

definition search_similar_emails ::
  "VectorStoreService \<Rightarrow> StoredDoc list \<Rightarrow> string \<Rightarrow> EmailMetadata \<Rightarrow> nat \<Rightarrow> Candidate list" where
  "search_similar_emails vs coll query_content query_metadata n_results =
     (let combined_text = create_embedding_text vs query_content query_metadata
      in case embed_query vs combined_text of
           Inl e \<Rightarrow> []
         | Inr query_embedding \<Rightarrow>
             (case collection_query vs coll query_embedding n_results of
                Inl e \<Rightarrow> []
              | Inr results \<Rightarrow>
                  if ids results \<noteq> [] \<and> hd (ids results) \<noteq> []
                  then (case make_matches results (enumerate 0 (hd (ids results))) of
                          Inl e \<Rightarrow> []
                        | Inr matches \<Rightarrow> matches)
                  else []))"

section \<open>Best match (\<open>SimilarityMatcher.find_best_match\<close>)\<close>

text \<open>
  \<open>max(xs, key=f)\<close> on a non-empty list: the first element whose key no later element
  exceeds strictly.
\<close>

fun max_from :: "('a \<Rightarrow> real) \<Rightarrow> 'a \<Rightarrow> 'a list \<Rightarrow> 'a" where
  "max_from f best [] = best"
| "max_from f best (x # xs) = max_from f (if f x > f best then x else best) xs"

text \<open>The loop that keeps the candidates for which a score could be computed.\<close>

fun score_all :: "settings \<Rightarrow> Candidate list \<Rightarrow> EmailMetadata \<Rightarrow> VectorMatch list" where
  "score_all cfg [] metadata = []"
| "score_all cfg (candidate # rest) metadata =
     (case calculate_confidence_score cfg candidate metadata of
        None \<Rightarrow> score_all cfg rest metadata
      | Some confidence_match \<Rightarrow> confidence_match # score_all cfg rest metadata)"

text \<open>
  The matcher holds \<open>vector_store = None\<close> when the vector store could not be initialised.
\<close>

definition find_best_match ::
  "settings \<Rightarrow> VectorStoreService option \<Rightarrow> StoredDoc list \<Rightarrow> string \<Rightarrow> EmailMetadata \<Rightarrow> nat
     \<Rightarrow> VectorMatch option" where
  "find_best_match cfg vector_store coll email_content metadata n_candidates =
     (case vector_store of
        None \<Rightarrow> None
      | Some vs \<Rightarrow>
          (let candidates = search_similar_emails vs coll email_content metadata n_candidates
           in if candidates = [] then None
              else (case score_all cfg candidates metadata of
                      [] \<Rightarrow> None
                    | m # ms \<Rightarrow> Some (max_from confidence_score m ms))))"

definition is_confident_match :: "settings \<Rightarrow> VectorMatch \<Rightarrow> bool" where
  "is_confident_match cfg vector_match =
     (confidence_score vector_match > confidence_threshold cfg)"

section \<open>Result models (\<open>app/models.py\<close>)\<close>

text \<open>
  \<open>website\<close> is an \<open>HttpUrl\<close> and \<open>dpo_email\<close> an \<open>EmailStr\<close>: when a \<open>BusinessEntity\<close> is
  constructed, pydantic validates both and keeps the normalised value (for a URL: scheme
  and host in lower case, a missing path replaced by \<open>/\<close>). The two validators belong to
  pydantic and are taken as parameters: each returns \<open>None\<close> for a rejected input and the
  text of the normalised value otherwise. A field holds that text, which is what
  \<open>str(website)\<close> gives.
\<close>

record Validators =
  http_url :: "string \<Rightarrow> string option"
  email_str :: "string \<Rightarrow> string option"

record BusinessEntity =
  name :: string
  website :: "string option"
  dpo_email :: "string option"
  industry :: "string option"
  location :: "string option"

record ExtractedData =
  email :: "string list option"
  phone_number :: "string list option"
  credit_card_number :: "string list option"

record ProcessedEmail =
  email_category :: EmailCategory
  business_entity :: BusinessEntity
  data :: ExtractedData
  pe_confidence_score :: real
  pe_metadata :: "EmailMetadata option"
  processed_at :: "string option"

text \<open>An optional field with a validator: \<open>None\<close> is accepted as it is.\<close>

definition validate_optional ::
  "(string \<Rightarrow> string option) \<Rightarrow> string option \<Rightarrow> error + string option" where
  "validate_optional validator x =
     (case x of
        None \<Rightarrow> Inr None
      | Some s \<Rightarrow> (case validator s of None \<Rightarrow> Inl ValidationError | Some s' \<Rightarrow> Inr (Some s')))"

text \<open>\<open>BusinessEntity(name=..., website=..., dpo_email=..., industry=..., location=...)\<close>\<close>

definition make_BusinessEntity ::
  "Validators \<Rightarrow> string \<Rightarrow> string option \<Rightarrow> string option \<Rightarrow> string option \<Rightarrow> string option
     \<Rightarrow> error + BusinessEntity" where
  "make_BusinessEntity v nm web dpo ind loc =
     (case validate_optional (http_url v) web of
        Inl e \<Rightarrow> Inl e
      | Inr validated_website \<Rightarrow>
          (case validate_optional (email_str v) dpo of
             Inl e \<Rightarrow> Inl e
           | Inr validated_dpo_email \<Rightarrow>
               Inr \<lparr> name = nm, website = validated_website, dpo_email = validated_dpo_email,
                     industry = ind, location = loc \<rparr>))"

text \<open>\<open>ExtractedData()\<close>\<close>

definition empty_ExtractedData :: ExtractedData where
  "empty_ExtractedData = \<lparr> email = None, phone_number = None, credit_card_number = None \<rparr>"

text \<open>
  \<open>ProcessedEmail(...)\<close>: \<open>confidence_score\<close> is declared with \<open>ge=0.0, le=1.0\<close>;
  \<open>processed_at\<close> is left at its default.
\<close>

definition make_ProcessedEmail ::
  "EmailCategory \<Rightarrow> BusinessEntity \<Rightarrow> ExtractedData \<Rightarrow> real \<Rightarrow> EmailMetadata
     \<Rightarrow> error + ProcessedEmail" where
  "make_ProcessedEmail cat be d conf md =
     (if 0 \<le> conf \<and> conf \<le> 1
      then Inr \<lparr> email_category = cat, business_entity = be, data = d,
                 pe_confidence_score = conf, pe_metadata = Some md, processed_at = None \<rparr>
      else Inl ValidationError)"

section \<open>Classification chain (\<open>app/llm/chains.py\<close>)\<close>

definition marketing_keywords :: "string list" where
  "marketing_keywords =
     [''unsubscribe'', ''newsletter'', ''promotion'', ''offer'', ''sale'', ''discount'']"

definition transactional_keywords :: "string list" where
  "transactional_keywords =
     [''order'', ''receipt'', ''confirmation'', ''invoice'', ''payment'', ''account'']"

definition survey_keywords :: "string list" where
  "survey_keywords = [''survey'', ''feedback'', ''questionnaire'', ''rate'', ''review'']"

definition support_keywords :: "string list" where
  "support_keywords =
     [''support'', ''help'', ''ticket'', ''issue'', ''problem'', ''assistance'']"

text \<open>\<open>any(keyword in content_lower for keyword in keywords)\<close>\<close>

definition any_keyword_in :: "string list \<Rightarrow> string \<Rightarrow> bool" where
  "any_keyword_in keywords content_lower = list_ex (\<lambda>keyword. contains content_lower keyword) keywords"

definition heuristic_classification :: "string \<Rightarrow> EmailMetadata \<Rightarrow> EmailCategory" where
  "heuristic_classification content metadata =
     (let content_lower = lower content
      in if any_keyword_in marketing_keywords content_lower then MARKETING
         else if any_keyword_in transactional_keywords content_lower then TRANSACTIONAL
         else if any_keyword_in survey_keywords content_lower then SURVEY
         else if any_keyword_in support_keywords content_lower then CUSTOMER_SUPPORT
         else PERSONAL)"

definition extract_company_name_heuristic :: "string \<Rightarrow> EmailMetadata \<Rightarrow> string" where
  "extract_company_name_heuristic content metadata =
     (let domain_parts = split CHR ''.'' (sender_domain metadata)
      in if length domain_parts \<ge> 2
         then capitalize (domain_parts ! (length domain_parts - 2))
         else ''Unknown Company'')"

text \<open>The result built in the \<open>except\<close> branch of \<open>_create_fallback_result\<close>.\<close>

definition ultimate_fallback :: "EmailMetadata \<Rightarrow> ProcessedEmail" where
  "ultimate_fallback metadata =
     \<lparr> email_category = PERSONAL,
       business_entity = \<lparr> name = ''Unknown'', website = None, dpo_email = None,
                            industry = None, location = None \<rparr>,
       data = empty_ExtractedData,
       pe_confidence_score = 0.1,
       pe_metadata = Some metadata,
       processed_at = None \<rparr>"

definition create_fallback_result :: "Validators \<Rightarrow> string \<Rightarrow> EmailMetadata \<Rightarrow> ProcessedEmail" where
  "create_fallback_result v email_content metadata =
     (let category = heuristic_classification email_content metadata
      in case make_BusinessEntity v
                (extract_company_name_heuristic email_content metadata)
                (case urls metadata of [] \<Rightarrow> None | u # rest \<Rightarrow> Some u)
                None None None of
           Inl e \<Rightarrow> ultimate_fallback metadata
         | Inr entity \<Rightarrow>
             (case make_ProcessedEmail category entity empty_ExtractedData 0.3 metadata of
                Inl e \<Rightarrow> ultimate_fallback metadata
              | Inr processed_email \<Rightarrow> processed_email))"

text \<open>
  The typed output of the LLM chain (\<open>EmailClassificationResult\<close>), and the chain itself:
  prompt, provider and output parser are one external call that either raises or returns
  a parsed result.
\<close>

record EmailClassificationResult =
  ecr_email_category :: EmailCategory
  ecr_business_entity :: BusinessEntity
  ecr_data :: ExtractedData
  ecr_confidence_score :: real

record EmailClassificationChain =
  classification_chain_invoke :: "string \<Rightarrow> EmailMetadata \<Rightarrow> error + EmailClassificationResult"

definition classify_email ::
  "Validators \<Rightarrow> EmailClassificationChain \<Rightarrow> string \<Rightarrow> EmailMetadata \<Rightarrow> ProcessedEmail" where
  "classify_email v chain email_content metadata =
     (case classification_chain_invoke chain email_content metadata of
        Inl e \<Rightarrow> create_fallback_result v email_content metadata
      | Inr result \<Rightarrow>
          (case make_ProcessedEmail (ecr_email_category result) (ecr_business_entity result)
                  (ecr_data result) (ecr_confidence_score result) metadata of
             Inl e \<Rightarrow> create_fallback_result v email_content metadata
           | Inr processed_email \<Rightarrow> processed_email))"

section \<open>DPO extraction chain (\<open>app/llm/chains.py\<close>)\<close>

text \<open>
  The regular expressions needed for the e-mail pattern, matched by derivatives.
\<close>

datatype rx = Nothing | Eps | Cls "char list" | Seq rx rx | Alt rx rx | Star rx

fun nullable :: "rx \<Rightarrow> bool" where
  "nullable Nothing = False"
| "nullable Eps = True"
| "nullable (Cls cs) = False"
| "nullable (Seq r s) = (nullable r \<and> nullable s)"
| "nullable (Alt r s) = (nullable r \<or> nullable s)"
| "nullable (Star r) = True"

fun deriv :: "char \<Rightarrow> rx \<Rightarrow> rx" where
  "deriv c Nothing = Nothing"
| "deriv c Eps = Nothing"
| "deriv c (Cls cs) = (if c \<in> set cs then Eps else Nothing)"
| "deriv c (Seq r s) =
     (if nullable r then Alt (Seq (deriv c r) s) (deriv c s) else Seq (deriv c r) s)"
| "deriv c (Alt r s) = Alt (deriv c r) (deriv c s)"
| "deriv c (Star r) = Seq (deriv c r) (Star r)"

fun matches :: "rx \<Rightarrow> string \<Rightarrow> bool" where
  "matches r [] = nullable r"
| "matches r (c # cs) = matches (deriv c r) cs"

text \<open>\<open>r+\<close> and \<open>r{2,}\<close>\<close>

definition plus :: "rx \<Rightarrow> rx" where
  "plus r = Seq r (Star r)"

definition at_least_two :: "rx \<Rightarrow> rx" where
  "at_least_two r = Seq r (Seq r (Star r))"

text \<open>\<open>^[a-zA-Z0-9._%+-]+@[a-zA-Z0-9.-]+\.[a-zA-Z]{2,}$\<close>\<close>

definition email_pattern :: rx where
  "email_pattern =
     Seq (plus (Cls (ascii_lowercase @ ascii_uppercase @ digits @ ''._%+-'')))
    (Seq (Cls ''@'')
    (Seq (plus (Cls (ascii_lowercase @ ascii_uppercase @ digits @ ''.-'')))
    (Seq (Cls ''.'')
         (at_least_two (Cls (ascii_lowercase @ ascii_uppercase))))))"

text \<open>
  \<open>re.match\<close> of a pattern anchored with \<open>^\<close> and \<open>$\<close>: the whole string matches, or the
  string without one final line feed does (\<open>$\<close> also matches just before it).
\<close>

definition re_match :: "rx \<Rightarrow> string \<Rightarrow> bool" where
  "re_match r s =
     (matches r s \<or> (s \<noteq> [] \<and> last s = CHR 0x0A \<and> matches r (butlast s)))"

definition is_valid_email :: "string \<Rightarrow> bool" where
  "is_valid_email e =
     (if e = [] \<or> lower e = ''none'' then False
      else re_match email_pattern (strip e))"

record DPOExtractionChain =
  extraction_chain_ainvoke :: "string \<Rightarrow> error + string"

text \<open>The text handed to the provider: lines 249-250 of \<open>extract_dpo_email\<close>.\<close>

definition truncate_content :: "string \<Rightarrow> string" where
  "truncate_content content =
     (if length content > 8000 then take 8000 content @ ''...'' else content)"

definition extract_dpo_email :: "DPOExtractionChain \<Rightarrow> string \<Rightarrow> string option" where
  "extract_dpo_email chain content =
     (case extraction_chain_ainvoke chain (truncate_content content) of
        Inl e \<Rightarrow> None
      | Inr response_content \<Rightarrow>
          (let extracted_text = strip response_content
           in if is_valid_email extracted_text then Some extracted_text else None))"

section \<open>Write to the index (\<open>VectorStoreService.add_email_embedding\<close>)\<close>






section \<open>Orchestrator (\<open>app/services/email_processor.py\<close>)\<close>

record EmailInput =
  from_email :: string
  subject :: string
  html_content :: "string option"
  text_content :: "string option"

text \<open>
  The scraper tool answers with the JSON form of a \<open>PrivacyPolicyResult\<close>, which the
  orchestrator parses back; only these two fields are read.
\<close>

record PrivacyPolicyResult =
  ppr_dpo_email :: "string option"
  ppr_success :: bool

text \<open>
  The services held by the processor. HTML stripping, PII detection, metadata extraction
  and the privacy-policy scraper are external calls that return or raise. The processor
  and its similarity matcher each construct a \<open>VectorStoreService\<close> of their own over the
  same collection; the matcher's is \<open>None\<close> when its construction failed.
\<close>

record EmailProcessor =
  html_processor_strip_html :: "string \<Rightarrow> error + string"
  pii_processor_anonymize_text :: "string \<Rightarrow> error + string"
  pii_processor_extract_pii_data :: "string \<Rightarrow> error + (string \<times> string list) list"
  metadata_extractor_extract_metadata :: "EmailInput \<Rightarrow> string \<Rightarrow> error + EmailMetadata"
  processor_vector_store :: VectorStoreService
  matcher_vector_store :: "VectorStoreService option"
  llm_classifier :: EmailClassificationChain
  privacy_scraper_run :: "string \<Rightarrow> error + PrivacyPolicyResult"
















text \<open>
  \<open>_enhance_business_entity\<close>: the DPO address is filled in from the scraper when it is
  missing and a website is known; every failure leaves the result as it is.
\<close>

definition enhance_business_entity :: "EmailProcessor \<Rightarrow> ProcessedEmail \<Rightarrow> ProcessedEmail" where
  "enhance_business_entity ep processed_email =
     (let entity = business_entity processed_email
      in case website entity of
           None \<Rightarrow> processed_email
         | Some url \<Rightarrow>
             if dpo_email entity = None \<or> dpo_email entity = Some []
             then (case privacy_scraper_run ep url of
                     Inl e \<Rightarrow> processed_email
                   | Inr result_data \<Rightarrow>
                       if ppr_success result_data \<and> ppr_dpo_email result_data \<noteq> None
                          \<and> ppr_dpo_email result_data \<noteq> Some []
                       then processed_email
                              \<lparr> business_entity :=
                                  entity \<lparr> dpo_email := ppr_dpo_email result_data \<rparr> \<rparr>
                       else processed_email)
             else processed_email)"



section \<open>Concrete inputs used in the examples below\<close>

definition example_metadata :: EmailMetadata where
  "example_metadata = \<lparr> sender_domain = ''mail.acme.com'', footer_text = None, urls = [] \<rparr>"

definition example_store :: "QueryResult \<Rightarrow> VectorStoreService" where
  "example_store r =
     \<lparr> create_embedding_text = (\<lambda>content md. content),
       embed_query = (\<lambda>text. Inr [0]),
       collection_query = (\<lambda>coll emb n. Inr r),
       collection_accepts = (\<lambda>doc. True),
       uuid4 = (\<lambda>coll. ''doc-1'') \<rparr>"

definition far_neighbour :: QueryResult where
  "far_neighbour =
     \<lparr> ids = [[''a'']], documents = [[''Big sale'']],
       metadatas = [[Some [(''sender_domain'', PyStr ''acme.com'')]]],
       distances = [[3 / 2]] \<rparr>"

definition unlabelled_neighbour :: QueryResult where
  "unlabelled_neighbour =
     \<lparr> ids = [[''a'']], documents = [[''Big sale'']],
       metadatas = [[None]],
       distances = [[1 / 10]] \<rparr>"

definition two_neighbours :: QueryResult where
  "two_neighbours =
     \<lparr> ids = [[''a'', ''b'']], documents = [[''Big sale'', ''Your invoice'']],
       metadatas = [[Some [(''sender_domain'', PyStr ''other.org'')],
                     Some [(''sender_domain'', PyStr ''acme.com'')]]],
       distances = [[1 / 16, 1 / 8]] \<rparr>"


text \<open>
  A stand-in for pydantic's validators in the examples. It accepts a URL of the form
  \<open>scheme://host\<close> or \<open>scheme://host/path\<close> with scheme \<open>http\<close> or \<open>https\<close> and normalises it
  as \<open>HttpUrl\<close> does: scheme and host in lower case, a missing path replaced by \<open>/\<close>. It
  accepts an e-mail address of the shape of the DPO pattern and keeps it as it is.
\<close>

definition normalised_url :: "nat \<Rightarrow> string \<Rightarrow> string" where
  "normalised_url k u =
     (let rest = drop k u;
          host = takeWhile (\<lambda>c. c \<noteq> CHR ''/'') rest;
          path = dropWhile (\<lambda>c. c \<noteq> CHR ''/'') rest
      in lower (take k u) @ lower host @ (if path = [] then ''/'' else path))"

definition scheme_validators :: Validators where
  "scheme_validators =
     \<lparr> http_url = (\<lambda>u. if startswith (lower u) ''http://'' \<and> length u > 7
                         then Some (normalised_url 7 u)
                       else if startswith (lower u) ''https://'' \<and> length u > 8
                         then Some (normalised_url 8 u)
                       else None),
       email_str = (\<lambda>a. if is_valid_email a then Some a else None) \<rparr>"

text \<open>A classification chain whose provider call always raises.\<close>

definition failing_chain :: EmailClassificationChain where
  "failing_chain = \<lparr> classification_chain_invoke = (\<lambda>content metadata. Inl ProviderError) \<rparr>"

text \<open>A DPO chain whose provider answers every prompt with the same text.\<close>

definition answering_chain :: "string \<Rightarrow> DPOExtractionChain" where
  "answering_chain answer = \<lparr> extraction_chain_ainvoke = (\<lambda>prompt. Inr answer) \<rparr>"

definition shopify_metadata :: "string list \<Rightarrow> EmailMetadata" where
  "shopify_metadata us = \<lparr> sender_domain = ''shopify.com'', footer_text = None, urls = us \<rparr>"


section \<open>Rounding to a double\<close>

lemma round_half_even_lower: "of_int N \<le> r \<Longrightarrow> N \<le> round_half_even r"
proof -
  assume "of_int N \<le> r"
  then have "N \<le> \<lfloor>r\<rfloor>" by (simp add: le_floor_iff)
  then show ?thesis by (simp add: round_half_even_def Let_def)
qed

lemma round_half_even_upper: "r \<le> of_int N \<Longrightarrow> round_half_even r \<le> N"
proof -
  assume a: "r \<le> of_int N"
  have f: "\<lfloor>r\<rfloor> \<le> N" using a by (simp add: floor_le_iff)
  show ?thesis
  proof (cases "\<lfloor>r\<rfloor> = N")
    case True
    then have "r = of_int N" using a by linarith
    then show ?thesis by (simp add: round_half_even_def)
  next
    case False
    with f have "\<lfloor>r\<rfloor> + 1 \<le> N" by simp
    then show ?thesis by (auto simp add: round_half_even_def Let_def)
  qed
qed

lemma round_half_even_of_int: "round_half_even (of_int k) = k"
  by (simp add: round_half_even_def)

lemma binade:
  assumes "0 < x"
  shows "2 powr of_int \<lfloor>log 2 x\<rfloor> \<le> x" and "x < 2 powr of_int (\<lfloor>log 2 x\<rfloor> + 1)"
proof -
  have x: "2 powr log 2 x = x" using assms by simp
  have "of_int \<lfloor>log 2 x\<rfloor> \<le> log 2 x" by simp
  then have "2 powr of_int \<lfloor>log 2 x\<rfloor> \<le> 2 powr log 2 x"
    by (simp only: powr_le_cancel_iff)
  with x show "2 powr of_int \<lfloor>log 2 x\<rfloor> \<le> x" by simp
  have "log 2 x < of_int (\<lfloor>log 2 x\<rfloor> + 1)" by linarith
  then have "2 powr log 2 x < 2 powr of_int (\<lfloor>log 2 x\<rfloor> + 1)"
    by (simp only: powr_less_cancel_iff)
  with x show "x < 2 powr of_int (\<lfloor>log 2 x\<rfloor> + 1)" by simp
qed

lemma exponent_unique:
  assumes "2 powr of_int e \<le> x" and "x < 2 powr of_int (e + 1)"
  shows "\<lfloor>log 2 x\<rfloor> = e"
proof -
  have "0 < (2::real) powr of_int e" by simp
  with assms(1) have pos: "0 < x" by linarith
  have "of_int e \<le> log 2 x" using assms(1) pos by (simp add: le_log_iff)
  moreover have "log 2 x < of_int (e + 1)" using assms(2) pos by (simp add: log_less_iff)
  ultimately show ?thesis by (simp add: floor_unique)
qed

lemma round_to_double_pos:
  assumes "0 < x"
  shows "round_to_double x =
           of_int (round_half_even (x / 2 powr of_int (\<lfloor>log 2 x\<rfloor> - 52)))
             * 2 powr of_int (\<lfloor>log 2 x\<rfloor> - 52)"
  using assms by (simp add: round_to_double_def Let_def)

lemma round_to_double_minus: "round_to_double (- x) = - round_to_double x"
  by (simp add: round_to_double_def Let_def sgn_minus)

lemma powr_split: "2 powr of_int (e - 52) * 2 ^ 52 = (2::real) powr of_int e"
proof -
  have "2 powr of_int (e - 52) * (2::real) powr 52 = 2 powr (of_int (e - 52) + 52)"
    by (simp only: powr_add)
  also have "of_int (e - 52) + 52 = (of_int e :: real)" by simp
  finally show ?thesis by simp
qed

lemma powr_split': "2 powr of_int (e - 52) * 2 ^ 53 = (2::real) powr of_int (e + 1)"
proof -
  have "2 powr of_int (e - 52) * (2::real) powr 53 = 2 powr (of_int (e - 52) + 53)"
    by (simp only: powr_add)
  also have "of_int (e - 52) + 53 = (of_int (e + 1) :: real)" by simp
  finally show ?thesis by simp
qed

lemma round_to_double_binade:
  assumes "0 < x"
  shows "2 powr of_int \<lfloor>log 2 x\<rfloor> \<le> round_to_double x"
    and "round_to_double x \<le> 2 powr of_int (\<lfloor>log 2 x\<rfloor> + 1)"
proof -
  let ?e = "\<lfloor>log 2 x\<rfloor>"
  let ?u = "(2::real) powr of_int (?e - 52)"
  let ?k = "round_half_even (x / ?u)"
  have u: "0 < ?u" by simp
  have rd: "round_to_double x = of_int ?k * ?u"
    by (rule round_to_double_pos [OF assms])
  have "2 ^ 52 * ?u \<le> x"
    using binade(1) [OF assms] powr_split [of ?e] by (simp only: mult.commute)
  then have "2 ^ 52 \<le> x / ?u"
    using u by (simp only: pos_le_divide_eq)
  then have "of_int (2 ^ 52) \<le> x / ?u" by simp
  then have "2 ^ 52 \<le> ?k" by (rule round_half_even_lower)
  then have "of_int (2 ^ 52) \<le> (of_int ?k :: real)" by (simp only: of_int_le_iff)
  then have "2 ^ 52 \<le> (of_int ?k :: real)" by simp
  then have "2 ^ 52 * ?u \<le> of_int ?k * ?u"
    using u by (simp only: mult_le_cancel_right_pos)
  moreover have "2 ^ 52 * ?u = 2 powr of_int ?e"
    using powr_split [of ?e] by (simp only: mult.commute)
  ultimately show "2 powr of_int ?e \<le> round_to_double x"
    by (simp only: rd)
  have "x \<le> 2 ^ 53 * ?u"
    using binade(2) [OF assms] powr_split' [of ?e] by (simp only: mult.commute less_imp_le)
  then have "x / ?u \<le> 2 ^ 53"
    using u by (simp only: pos_divide_le_eq)
  then have "x / ?u \<le> of_int (2 ^ 53)" by simp
  then have "?k \<le> 2 ^ 53" by (rule round_half_even_upper)
  then have "(of_int ?k :: real) \<le> of_int (2 ^ 53)" by (simp only: of_int_le_iff)
  then have "(of_int ?k :: real) \<le> 2 ^ 53" by simp
  then have "of_int ?k * ?u \<le> 2 ^ 53 * ?u"
    using u by (simp only: mult_le_cancel_right_pos)
  moreover have "2 ^ 53 * ?u = 2 powr of_int (?e + 1)"
    using powr_split' [of ?e] by (simp only: mult.commute)
  ultimately show "round_to_double x \<le> 2 powr of_int (?e + 1)"
    by (simp only: rd)
qed

lemma round_to_double_pos_iff: "0 < round_to_double x \<longleftrightarrow> 0 < x"
proof -
  have p: "0 < round_to_double y" if "0 < y" for y
  proof -
    have "0 < (2::real) powr of_int \<lfloor>log 2 y\<rfloor>" by simp
    with round_to_double_binade(1) [OF that] show ?thesis by linarith
  qed
  have n: "round_to_double y < 0" if "y < 0" for y
    using p [of "- y"] that by (simp add: round_to_double_minus)
  have z: "round_to_double 0 = 0" by (simp add: round_to_double_def)
  show ?thesis using p [of x] n [of x] z by (cases "x = 0"; cases "0 < x") auto
qed

lemma round_to_double_nonneg_iff: "0 \<le> round_to_double x \<longleftrightarrow> 0 \<le> x"
proof -
  have "round_to_double (- x) = - round_to_double x" by (rule round_to_double_minus)
  then show ?thesis using round_to_double_pos_iff [of "- x"] by linarith
qed

lemma round_to_double_exact:
  assumes "2 powr of_int e \<le> x" and "x < 2 powr of_int (e + 1)"
    and "x = of_int k * 2 powr of_int (e - 52)"
  shows "round_to_double x = x"
proof -
  have "0 < (2::real) powr of_int e" by simp
  with assms(1) have pos: "0 < x" by linarith
  have e: "\<lfloor>log 2 x\<rfloor> = e" using assms(1,2) by (rule exponent_unique)
  have "x / 2 powr of_int (e - 52) = of_int k" using assms(3) by simp
  then have "round_to_double x = of_int k * 2 powr of_int (e - 52)"
    unfolding round_to_double_pos [OF pos] e by (simp only: round_half_even_of_int)
  with assms(3) show ?thesis by simp
qed

lemma powr_neg_nat: "(2::real) powr (- real n) = 1 / 2 ^ n"
proof -
  have "(2::real) powr (- real n) = 1 / 2 powr real n" by (rule powr_minus_divide)
  also have "(2::real) powr real n = 2 ^ n" by (rule powr_realpow) simp
  finally show ?thesis .
qed

lemma powr_m1: "(2::real) powr (- 1) = 1 / 2"
  using powr_neg_nat [of 1] by simp

lemma powr_m52: "(2::real) powr (- 52) = 1 / 2 ^ 52"
  using powr_neg_nat [of 52] by simp

lemma powr_m53: "(2::real) powr (- 53) = 1 / 2 ^ 53"
  using powr_neg_nat [of 53] by simp

lemma round_to_double_one: "round_to_double 1 = 1"
  by (rule round_to_double_exact [of 0 _ "2 ^ 52"]) (simp_all add: powr_m52)

lemma round_to_double_le_one:
  assumes "x \<le> 1"
  shows "round_to_double x \<le> 1"
proof (cases "0 < x")
  case False
  then have "\<not> 0 < round_to_double x" by (simp add: round_to_double_pos_iff)
  then show ?thesis by simp
next
  case True
  show ?thesis
  proof (cases "x = 1")
    case True
    then show ?thesis by (simp add: round_to_double_one)
  next
    case False
    with assms have "x < 1" by simp
    with True have "log 2 x < 0" by simp
    then have "\<lfloor>log 2 x\<rfloor> < 0" by (simp add: floor_less_iff)
    then have "\<lfloor>log 2 x\<rfloor> + 1 \<le> 0" by linarith
    then have "2 powr of_int (\<lfloor>log 2 x\<rfloor> + 1) \<le> (2::real) powr 0"
      by (simp only: powr_le_cancel_iff)
    with round_to_double_binade(2) [OF True] show ?thesis by simp
  qed
qed

lemma float_sub_le_one: "0 \<le> d \<Longrightarrow> float_sub 1 d \<le> 1"
  by (simp add: float_sub_def round_to_double_le_one)

lemma float_sub_zero: "float_sub 1 0 = 1"
  by (simp add: float_sub_def round_to_double_one)

lemma float_sub_nonneg_iff: "0 \<le> float_sub 1 d \<longleftrightarrow> d \<le> 1"
  by (simp add: float_sub_def round_to_double_nonneg_iff)

lemma float_sub_three_halves: "float_sub 1 (3 / 2) = - (1 / 2)"
proof -
  have "round_to_double (1 / 2) = 1 / 2"
    by (rule round_to_double_exact [of "-1" _ "2 ^ 52"]) (simp_all add: powr_m1 powr_m53)
  then have "round_to_double (- (1 / 2)) = - (1 / 2)"
    by (simp only: round_to_double_minus)
  then show ?thesis by (simp add: float_sub_def)
qed

lemma float_sub_rounds_to_one: "float_sub 1 (1 / 2 ^ 60) = 1"
proof -
  let ?x = "1 - 1 / 2 ^ 60 :: real"
  have b: "2 powr of_int (-1) \<le> ?x" "?x < 2 powr of_int (-1 + 1)"
    by (simp_all add: powr_m1)
  have pos: "0 < ?x" by simp
  have e: "\<lfloor>log 2 ?x\<rfloor> = -1" using b by (rule exponent_unique)
  have u: "2 powr of_int (-1 - 52) = (1 / 2 ^ 53 :: real)"
    by (simp add: powr_m53)
  have q: "?x / (1 / 2 ^ 53) = 2 ^ 53 - 1 / 128" by simp
  have fl: "\<lfloor>2 ^ 53 - 1 / 128 :: real\<rfloor> = 2 ^ 53 - 1"
    by (rule floor_unique) simp_all
  have r: "round_half_even (2 ^ 53 - 1 / 128) = 2 ^ 53"
    unfolding round_half_even_def fl Let_def by simp
  show ?thesis
    unfolding float_sub_def round_to_double_pos [OF pos] e u q r by simp
qed

lemma float_sub_sixteenth: "float_sub 1 (1 / 16) = 15 / 16"
proof -
  have "round_to_double (15 / 16) = 15 / 16"
    by (rule round_to_double_exact [of "-1" _ "15 * 2 ^ 49"]) (simp_all add: powr_m1 powr_m53)
  then show ?thesis by (simp add: float_sub_def)
qed

lemma float_sub_eighth: "float_sub 1 (1 / 8) = 7 / 8"
proof -
  have "round_to_double (7 / 8) = 7 / 8"
    by (rule round_to_double_exact [of "-1" _ "7 * 2 ^ 50"]) (simp_all add: powr_m1 powr_m53)
  then show ?thesis by (simp add: float_sub_def)
qed


section \<open>Auxiliary facts about the search and the matcher\<close>

lemma max_from_mem: "max_from f b xs \<in> set (b # xs)"
  by (induction xs arbitrary: b) auto

lemma max_from_ge_best: "f b \<le> f (max_from f b xs)"
proof (induction xs arbitrary: b)
  case Nil
  show ?case by simp
next
  case (Cons x xs)
  show ?case
  proof (cases "f x > f b")
    case True
    have "f x \<le> f (max_from f x xs)" by (rule Cons.IH)
    with True show ?thesis by simp
  next
    case False
    then show ?thesis using Cons.IH [of b] by simp
  qed
qed

lemma max_from_ge: "x \<in> set (b # xs) \<Longrightarrow> f x \<le> f (max_from f b xs)"
proof (induction xs arbitrary: b)
  case Nil
  then show ?case by simp
next
  case (Cons y ys)
  let ?b' = "if f y > f b then y else b"
  have step: "max_from f b (y # ys) = max_from f ?b' ys" by simp
  from Cons.prems consider "x = b" | "x = y" | "x \<in> set ys" by auto
  then show ?case
  proof cases
    case 1
    have "f b \<le> f ?b'" by simp
    also have "\<dots> \<le> f (max_from f ?b' ys)" by (rule max_from_ge_best)
    finally show ?thesis using 1 step by simp
  next
    case 2
    have "f y \<le> f ?b'" by simp
    also have "\<dots> \<le> f (max_from f ?b' ys)" by (rule max_from_ge_best)
    finally show ?thesis using 2 step by simp
  next
    case 3
    then have "x \<in> set (?b' # ys)" by simp
    then have "f x \<le> f (max_from f ?b' ys)" by (rule Cons.IH)
    then show ?thesis using step by simp
  qed
qed

lemma make_match_Inr:
  assumes "make_match results i did = Inr c"
  shows "cand_id c = did" and "distances results \<noteq> []"
    and "i < length (hd (distances results))"
    and "cand_distance c = hd (distances results) ! i"
    and "cand_similarity c = float_sub 1 (cand_distance c)"
  using assms
  by (auto simp: make_match_def getitem_def hd_conv_nth split: sum.splits if_splits)

lemma make_matches_mem:
  "make_matches results ps = Inr ms \<Longrightarrow> c \<in> set ms \<Longrightarrow>
     \<exists>i did. (i, did) \<in> set ps \<and> make_match results i did = Inr c"
proof (induction ps arbitrary: ms)
  case Nil
  then show ?case by simp
next
  case (Cons p ps)
  obtain i did where p: "p = (i, did)" by (cases p)
  from Cons.prems(1) p obtain m rest where
    m: "make_match results i did = Inr m" and
    rest: "make_matches results ps = Inr rest" and
    ms: "ms = m # rest"
    by (auto split: sum.splits)
  from Cons.prems(2) ms consider "c = m" | "c \<in> set rest" by auto
  then show ?case
  proof cases
    case 1
    with m p show ?thesis by auto
  next
    case 2
    from Cons.IH [OF rest 2] show ?thesis by auto
  qed
qed

lemma search_similar_emails_cases:
  assumes "c \<in> set (search_similar_emails vs coll t md n)"
  obtains emb results i where
    "embed_query vs (create_embedding_text vs t md) = Inr emb" and
    "collection_query vs coll emb n = Inr results" and
    "i < length (hd (ids results))" and
    "make_match results i (hd (ids results) ! i) = Inr c"
proof (cases "embed_query vs (create_embedding_text vs t md)")
  case (Inl e)
  then have "search_similar_emails vs coll t md n = []"
    by (simp add: search_similar_emails_def)
  with assms show ?thesis by simp
next
  case emb: (Inr emb)
  show ?thesis
  proof (cases "collection_query vs coll emb n")
    case (Inl e)
    with emb have "search_similar_emails vs coll t md n = []"
      by (simp add: search_similar_emails_def)
    with assms show ?thesis by simp
  next
    case res: (Inr results)
    show ?thesis
    proof (cases "make_matches results (enumerate 0 (hd (ids results)))")
      case (Inl e)
      with emb res have "search_similar_emails vs coll t md n = []"
        by (simp add: search_similar_emails_def)
      with assms show ?thesis by simp
    next
      case (Inr ms)
      with emb res have "search_similar_emails vs coll t md n = ms \<or>
          search_similar_emails vs coll t md n = []"
        by (simp add: search_similar_emails_def)
      with assms have "c \<in> set ms" by auto
      from make_matches_mem [OF Inr this] obtain i did where
        p: "(i, did) \<in> set (enumerate 0 (hd (ids results)))" and
        m: "make_match results i did = Inr c"
        by blast
      from p have "i < length (hd (ids results))" and "did = hd (ids results) ! i"
        by (simp_all add: in_set_enumerate_eq)
      with emb res m show ?thesis by (auto intro: that)
    qed
  qed
qed

lemma calculate_confidence_score_Some:
  assumes "calculate_confidence_score cfg c q = Some vm"
  shows "confidence_score vm = similarity_score vm * domain_weight vm"
    and "similarity_score vm = cand_similarity c"
    and "\<exists>md. cand_metadata c = Some md \<and> vm_metadata vm = md \<and>
           domain_weight vm =
             (case dict_get md ''sender_domain'' (PyStr []) of
                PyStr d \<Rightarrow> calculate_domain_weight cfg (sender_domain q) d
              | _ \<Rightarrow> default_domain_weight cfg)"
  using assms
  by (auto simp: calculate_confidence_score_def Let_def
      split: option.splits pyval.splits if_splits)

lemma are_domains_similar_refl: "are_domains_similar d d"
  by (simp add: are_domains_similar_def)


lemmas string_eval =
  strip_def lower_def lower_char_def is_space_def ascii_uppercase_def ascii_lowercase_def
  startswith_def endswith_def extract_root_domain_def last_two_def common_prefixes_def

lemmas search_eval =
  search_similar_emails_def example_store_def make_match_def getitem_def enumerate_eq_zip
  float_sub_three_halves float_sub_sixteenth float_sub_eighth

section \<open>Properties of the confidence matcher\<close>

text \<open>
  Claim C1. Every candidate the matcher scores gets confidence = similarity \<times> domain weight.
  The weight is the exact-domain weight (1.0) when the two domains, lower-cased and stripped,
  are equal, else the similar-domain weight (0.8) when they are similar, else the default
  weight (0.5), in that order; a query or candidate domain that is missing or empty gives
  the default weight.
\<close>

theorem confidence_is_similarity_times_domain_weight:
  assumes "calculate_confidence_score cfg candidate query = Some vm"
  shows "confidence_score vm = similarity_score vm * domain_weight vm
       \<and> similarity_score vm = cand_similarity candidate
       \<and> (\<exists>md. cand_metadata candidate = Some md
             \<and> domain_weight vm =
                 (case dict_get md ''sender_domain'' (PyStr []) of
                    PyStr d \<Rightarrow> calculate_domain_weight cfg (sender_domain query) d
                  | _ \<Rightarrow> default_domain_weight cfg)
             \<and> (sender_domain query = [] \<or> \<not> truthy (dict_get md ''sender_domain'' (PyStr []))
                  \<longrightarrow> domain_weight vm = default_domain_weight cfg))
       \<and> (\<forall>q c. calculate_domain_weight cfg q c =
             (if q = [] \<or> c = [] then default_domain_weight cfg
              else if strip (lower q) = strip (lower c) then exact_domain_weight cfg
              else if are_domains_similar (strip (lower q)) (strip (lower c))
                   then similar_domain_weight cfg
              else default_domain_weight cfg))
       \<and> (\<forall>q c. calculate_domain_weight cfg q c
               \<in> {exact_domain_weight cfg, similar_domain_weight cfg, default_domain_weight cfg})
       \<and> exact_domain_weight default_settings = 1.0
       \<and> similar_domain_weight default_settings = 0.8
       \<and> default_domain_weight default_settings = 0.5"
proof -
  note score = calculate_confidence_score_Some [OF assms]
  from score(3) obtain md where md: "cand_metadata candidate = Some md"
    and w: "domain_weight vm =
             (case dict_get md ''sender_domain'' (PyStr []) of
                PyStr d \<Rightarrow> calculate_domain_weight cfg (sender_domain query) d
              | _ \<Rightarrow> default_domain_weight cfg)"
    by blast
  have missing: "sender_domain query = [] \<or> \<not> truthy (dict_get md ''sender_domain'' (PyStr []))
      \<longrightarrow> domain_weight vm = default_domain_weight cfg"
    using w by (cases "dict_get md ''sender_domain'' (PyStr [])")
      (simp_all add: calculate_domain_weight_def)
  have formula: "calculate_domain_weight cfg q c =
             (if q = [] \<or> c = [] then default_domain_weight cfg
              else if strip (lower q) = strip (lower c) then exact_domain_weight cfg
              else if are_domains_similar (strip (lower q)) (strip (lower c))
                   then similar_domain_weight cfg
              else default_domain_weight cfg)" for q c
    by (simp add: calculate_domain_weight_def Let_def)
  have range: "calculate_domain_weight cfg q c
      \<in> {exact_domain_weight cfg, similar_domain_weight cfg, default_domain_weight cfg}" for q c
    by (simp add: formula)
  have numbers: "exact_domain_weight default_settings = 1.0
       \<and> similar_domain_weight default_settings = 0.8
       \<and> default_domain_weight default_settings = 0.5"
    by (simp add: default_settings_def)
  from score(1,2) md w missing formula range numbers show ?thesis by blast
qed

theorem confidence_is_similarity_times_domain_weight_witness:
  "calculate_confidence_score default_settings
     \<lparr> cand_id = ''a'', cand_document = ''Big sale'',
       cand_metadata = Some [(''sender_domain'', PyStr ''acme.com'')],
       cand_distance = 1 / 10, cand_similarity = 9 / 10 \<rparr> example_metadata
   = Some \<lparr> similarity_score = 9 / 10, domain_weight = 8 / 10, confidence_score = 72 / 100,
            vm_metadata = [(''sender_domain'', PyStr ''acme.com'')] \<rparr>
   \<and> (72 / 100 :: real) = 9 / 10 * (8 / 10)"
proof -
  let ?c = "\<lparr> cand_id = ''a'', cand_document = ''Big sale'',
       cand_metadata = Some [(''sender_domain'', PyStr ''acme.com'')],
       cand_distance = 1 / 10, cand_similarity = 9 / 10 \<rparr>"
  let ?vm = "\<lparr> similarity_score = 9 / 10, domain_weight = 8 / 10, confidence_score = 72 / 100,
            vm_metadata = [(''sender_domain'', PyStr ''acme.com'')] \<rparr>"
  have w: "calculate_domain_weight default_settings ''mail.acme.com'' ''acme.com'' = 8 / 10"
    by (simp add: calculate_domain_weight_def default_settings_def are_domains_similar_def
        string_eval)
  have h: "calculate_confidence_score default_settings ?c example_metadata = Some ?vm"
    by (simp add: calculate_confidence_score_def example_metadata_def dict_get_def w)
  from confidence_is_similarity_times_domain_weight [OF h] h show ?thesis by simp
qed

text \<open>
  Claim C3. \<open>is_confident_match\<close> holds exactly when the confidence score is strictly
  greater than the configured threshold (0.85 by default); at the threshold it is false.
\<close>

theorem is_confident_match_strict_threshold:
  "(is_confident_match cfg vm \<longleftrightarrow> confidence_threshold cfg < confidence_score vm)
   \<and> (confidence_score vm = confidence_threshold cfg \<longrightarrow> \<not> is_confident_match cfg vm)
   \<and> confidence_threshold default_settings = 0.85"
  by (simp add: is_confident_match_def default_settings_def)

theorem is_confident_match_strict_threshold_witness:
  "confidence_score \<lparr> similarity_score = 85 / 100, domain_weight = 1,
       confidence_score = 85 / 100, vm_metadata = [] \<rparr> = confidence_threshold default_settings
   \<and> \<not> is_confident_match default_settings
       \<lparr> similarity_score = 85 / 100, domain_weight = 1,
         confidence_score = 85 / 100, vm_metadata = [] \<rparr>"
  using is_confident_match_strict_threshold [of default_settings
      "\<lparr> similarity_score = 85 / 100, domain_weight = 1,
         confidence_score = 85 / 100, vm_metadata = [] \<rparr>"]
  by (simp add: default_settings_def)

text \<open>
  Claim C8. Domain similarity is symmetric: \<open>similar(a, b) = similar(b, a)\<close> for all
  domain strings.
\<close>

theorem are_domains_similar_symmetric:
  "are_domains_similar a b = are_domains_similar b a"
  unfolding are_domains_similar_def Let_def list_ex_iff by auto

theorem are_domains_similar_symmetric_witness:
  "are_domains_similar ''acme.com'' ''mail.acme.com''"
proof -
  have "are_domains_similar ''mail.acme.com'' ''acme.com''"
    by (simp add: are_domains_similar_def string_eval)
  then show ?thesis
    using are_domains_similar_symmetric [of "''acme.com''" "''mail.acme.com''"] by simp
qed

lemma score_all_set:
  "vm \<in> set (score_all cfg cs q) \<longleftrightarrow> (\<exists>c \<in> set cs. calculate_confidence_score cfg c q = Some vm)"
  by (induction cs) (auto split: option.splits)

section \<open>Properties of the vector search and of the best match\<close>

text \<open>
  Claim C9 (as amended). Every candidate produced by the vector search stands for one entry
  of the answer of the index: its distance is the distance the index returned for that
  entry, and its similarity is the floating-point difference \<open>1 - distance\<close>, which the
  matcher copies unchanged into the match it scores. The similarity is at most 1 when the
  distance is non-negative, is 1 at distance 0 (an identical embedding), and is non-negative
  exactly when the distance is at most 1: it lies in [0,1] whenever the distance does, and
  is negative for every distance above 1. Because the difference is rounded, a similarity
  of 1 does not require distance 0 (\<open>float_sub_rounds_to_one\<close> above). The second theorem
  below shows a candidate at distance 1.5 with similarity -0.5, outside [0,1].
\<close>

theorem similarity_is_one_minus_distance:
  assumes "c \<in> set (search_similar_emails vs coll query_content query_metadata n)"
  shows "(\<exists>emb results i.
            embed_query vs (create_embedding_text vs query_content query_metadata) = Inr emb
          \<and> collection_query vs coll emb n = Inr results
          \<and> i < length (hd (ids results)) \<and> cand_id c = hd (ids results) ! i
          \<and> distances results \<noteq> [] \<and> i < length (hd (distances results))
          \<and> cand_distance c = hd (distances results) ! i)
       \<and> cand_similarity c = float_sub 1 (cand_distance c)
       \<and> (0 \<le> cand_distance c \<longrightarrow> cand_similarity c \<le> 1)
       \<and> (cand_distance c = 0 \<longrightarrow> cand_similarity c = 1)
       \<and> (0 \<le> cand_similarity c \<longleftrightarrow> cand_distance c \<le> 1)
       \<and> (0 \<le> cand_distance c \<and> cand_distance c \<le> 1
             \<longrightarrow> 0 \<le> cand_similarity c \<and> cand_similarity c \<le> 1)
       \<and> (\<forall>vm. calculate_confidence_score cfg c query_metadata = Some vm
              \<longrightarrow> similarity_score vm = float_sub 1 (cand_distance c))"
proof -
  from assms obtain emb results i where
    emb: "embed_query vs (create_embedding_text vs query_content query_metadata) = Inr emb" and
    res: "collection_query vs coll emb n = Inr results" and
    i: "i < length (hd (ids results))" and
    m: "make_match results i (hd (ids results) ! i) = Inr c"
    by (rule search_similar_emails_cases)
  note mm = make_match_Inr [OF m]
  have origin: "\<exists>emb results i.
            embed_query vs (create_embedding_text vs query_content query_metadata) = Inr emb
          \<and> collection_query vs coll emb n = Inr results
          \<and> i < length (hd (ids results)) \<and> cand_id c = hd (ids results) ! i
          \<and> distances results \<noteq> [] \<and> i < length (hd (distances results))
          \<and> cand_distance c = hd (distances results) ! i"
    using emb res i mm(1-4) by blast
  have sim: "cand_similarity c = float_sub 1 (cand_distance c)" by (rule mm(5))
  have le: "0 \<le> cand_distance c \<longrightarrow> cand_similarity c \<le> 1"
    by (simp add: sim float_sub_le_one)
  have one: "cand_distance c = 0 \<longrightarrow> cand_similarity c = 1"
    by (simp add: sim float_sub_zero)
  have ge: "0 \<le> cand_similarity c \<longleftrightarrow> cand_distance c \<le> 1"
    by (simp add: sim float_sub_nonneg_iff)
  have copied: "similarity_score vm = float_sub 1 (cand_distance c)"
    if "calculate_confidence_score cfg c query_metadata = Some vm" for vm
    using calculate_confidence_score_Some(2) [OF that] sim by simp
  from origin sim le one ge copied show ?thesis by blast
qed

theorem similarity_is_one_minus_distance_witness:
  "search_similar_emails (example_store far_neighbour) [] ''Big sale today'' example_metadata 10
     = [\<lparr> cand_id = ''a'', cand_document = ''Big sale'',
          cand_metadata = Some [(''sender_domain'', PyStr ''acme.com'')],
          cand_distance = 3 / 2, cand_similarity = - (1 / 2) \<rparr>]
   \<and> - (1 / 2) = float_sub 1 (3 / 2)"
proof -
  let ?c = "\<lparr> cand_id = ''a'', cand_document = ''Big sale'',
          cand_metadata = Some [(''sender_domain'', PyStr ''acme.com'')],
          cand_distance = 3 / 2, cand_similarity = - (1 / 2) \<rparr>"
  have h: "search_similar_emails (example_store far_neighbour) [] ''Big sale today''
             example_metadata 10 = [?c]"
    by (simp add: search_eval far_neighbour_def)
  then have "?c \<in> set (search_similar_emails (example_store far_neighbour) []
      ''Big sale today'' example_metadata 10)" by simp
  from similarity_is_one_minus_distance [OF this] h show ?thesis by simp
qed

theorem similarity_outside_unit_interval:
  "search_similar_emails (example_store far_neighbour) [] ''Big sale today'' example_metadata 10
     = [\<lparr> cand_id = ''a'', cand_document = ''Big sale'',
          cand_metadata = Some [(''sender_domain'', PyStr ''acme.com'')],
          cand_distance = 3 / 2, cand_similarity = - (1 / 2) \<rparr>]
   \<and> map similarity_score
        (score_all default_settings
           (search_similar_emails (example_store far_neighbour) [] ''Big sale today''
              example_metadata 10) example_metadata) = [- (1 / 2)]
   \<and> \<not> (0 \<le> (- (1 / 2) :: real) \<and> (- (1 / 2) :: real) \<le> 1)"
proof -
  have h: "search_similar_emails (example_store far_neighbour) [] ''Big sale today''
             example_metadata 10 = [\<lparr> cand_id = ''a'', cand_document = ''Big sale'',
          cand_metadata = Some [(''sender_domain'', PyStr ''acme.com'')],
          cand_distance = 3 / 2, cand_similarity = - (1 / 2) \<rparr>]"
    by (simp add: search_eval far_neighbour_def)
  show ?thesis
    unfolding h
    by (simp add: calculate_confidence_score_def dict_get_def)
qed

text \<open>
  Claim C5 (as amended). \<open>find_best_match\<close> returns \<open>None\<close> when the vector store is
  unavailable, when the search returns no candidate, and also when no candidate could be
  scored; in every other case it returns a scored candidate whose confidence no other
  scored candidate exceeds. It has no raising branch. The last theorem below shows a
  non-empty candidate set, none of which can be scored, for which the result is \<open>None\<close>.
\<close>

theorem find_best_match_result:
  "find_best_match cfg None coll email_content metadata n = None
   \<and> (search_similar_emails vs coll email_content metadata n = []
        \<longrightarrow> find_best_match cfg (Some vs) coll email_content metadata n = None)
   \<and> (find_best_match cfg (Some vs) coll email_content metadata n = None
        \<longleftrightarrow> score_all cfg (search_similar_emails vs coll email_content metadata n) metadata = [])
   \<and> (\<forall>best. find_best_match cfg (Some vs) coll email_content metadata n = Some best
        \<longrightarrow> best \<in> set (score_all cfg (search_similar_emails vs coll email_content metadata n)
                          metadata)
          \<and> (\<forall>m \<in> set (score_all cfg (search_similar_emails vs coll email_content metadata n)
                          metadata).
                confidence_score m \<le> confidence_score best))"
proof -
  let ?cands = "search_similar_emails vs coll email_content metadata n"
  let ?scored = "score_all cfg ?cands metadata"
  let ?r = "find_best_match cfg (Some vs) coll email_content metadata n"
  have r: "?r = (case ?scored of [] \<Rightarrow> None | m # ms \<Rightarrow> Some (max_from confidence_score m ms))"
    by (cases ?cands) (simp_all add: find_best_match_def)
  have none: "find_best_match cfg None coll email_content metadata n = None"
    by (simp add: find_best_match_def)
  have empty: "?cands = [] \<longrightarrow> ?r = None"
    by (simp add: find_best_match_def)
  have iff: "?r = None \<longleftrightarrow> ?scored = []"
    unfolding r by (simp split: list.splits)
  have best: "best \<in> set ?scored \<and> (\<forall>m \<in> set ?scored. confidence_score m \<le> confidence_score best)"
    if "?r = Some best" for best
  proof -
    from that r obtain m ms where s: "?scored = m # ms"
      and b: "best = max_from confidence_score m ms"
      by (cases ?scored) auto
    show ?thesis
      unfolding s b using max_from_mem [of confidence_score m ms]
        max_from_ge [of _ m ms confidence_score] by blast
  qed
  from none empty iff best show ?thesis by blast
qed

theorem find_best_match_result_witness:
  "find_best_match default_settings (Some (example_store two_neighbours)) []
      ''Big sale today'' example_metadata 10
   = Some \<lparr> similarity_score = 7 / 8, domain_weight = 8 / 10, confidence_score = 7 / 10,
            vm_metadata = [(''sender_domain'', PyStr ''acme.com'')] \<rparr>
   \<and> map confidence_score
        (score_all default_settings
          (search_similar_emails (example_store two_neighbours) [] ''Big sale today''
             example_metadata 10) example_metadata) = [15 / 32, 7 / 10]"
proof -
  let ?cands = "search_similar_emails (example_store two_neighbours) [] ''Big sale today''
             example_metadata 10"
  have w1: "calculate_domain_weight default_settings ''mail.acme.com'' ''acme.com'' = 8 / 10"
    by (simp add: calculate_domain_weight_def default_settings_def are_domains_similar_def
        string_eval)
  have w2: "calculate_domain_weight default_settings ''mail.acme.com'' ''other.org'' = 5 / 10"
    by (simp add: calculate_domain_weight_def default_settings_def are_domains_similar_def
        string_eval)
  have c: "?cands =
      [\<lparr> cand_id = ''a'', cand_document = ''Big sale'',
          cand_metadata = Some [(''sender_domain'', PyStr ''other.org'')],
          cand_distance = 1 / 16, cand_similarity = 15 / 16 \<rparr>,
       \<lparr> cand_id = ''b'', cand_document = ''Your invoice'',
          cand_metadata = Some [(''sender_domain'', PyStr ''acme.com'')],
          cand_distance = 1 / 8, cand_similarity = 7 / 8 \<rparr>]"
    by (simp add: search_eval two_neighbours_def)
  have s: "score_all default_settings ?cands example_metadata =
      [\<lparr> similarity_score = 15 / 16, domain_weight = 5 / 10, confidence_score = 15 / 32,
            vm_metadata = [(''sender_domain'', PyStr ''other.org'')] \<rparr>,
       \<lparr> similarity_score = 7 / 8, domain_weight = 8 / 10, confidence_score = 7 / 10,
            vm_metadata = [(''sender_domain'', PyStr ''acme.com'')] \<rparr>]"
    unfolding c
    by (simp add: calculate_confidence_score_def dict_get_def example_metadata_def w1 w2)
  have r: "find_best_match default_settings (Some (example_store two_neighbours)) []
      ''Big sale today'' example_metadata 10
   = Some \<lparr> similarity_score = 7 / 8, domain_weight = 8 / 10, confidence_score = 7 / 10,
            vm_metadata = [(''sender_domain'', PyStr ''acme.com'')] \<rparr>"
    unfolding find_best_match_def option.case Let_def s
    by (simp add: c)
  from find_best_match_result [of default_settings "[]" "''Big sale today''" example_metadata 10
      "example_store two_neighbours"] r s
  show ?thesis by simp
qed

theorem find_best_match_none_on_unscorable_candidates:
  "search_similar_emails (example_store unlabelled_neighbour) [] ''Big sale today''
       example_metadata 10 \<noteq> []
   \<and> find_best_match default_settings (Some (example_store unlabelled_neighbour)) []
       ''Big sale today'' example_metadata 10 = None"
  by (simp add: find_best_match_def search_eval unlabelled_neighbour_def
      calculate_confidence_score_def)

lemma contains_sublist: "contains s t \<longleftrightarrow> sublist t s"
  by (induction s) (simp_all add: sublist_Cons_right)

lemma any_keyword_in_iff: "any_keyword_in ks s \<longleftrightarrow> (\<exists>k \<in> set ks. sublist k s)"
  by (simp add: any_keyword_in_def list_ex_iff contains_sublist)

lemma sublist_lower:
  assumes "sublist k s"
  shows "sublist (lower k) (lower s)"
proof -
  from assms obtain ps ss where "s = ps @ k @ ss" by (auto simp: sublist_def)
  then have "lower s = lower ps @ lower k @ lower ss" by (simp add: lower_def)
  then show ?thesis unfolding sublist_def by blast
qed

lemmas regex_eval = is_valid_email_def re_match_def email_pattern_def plus_def at_least_two_def
  digits_def

section \<open>Properties of the classification chain\<close>

text \<open>
  Claim C4. The heuristic classifier is a total function of the text: it returns the
  category of the first keyword bucket, in the order marketing, transactional, survey,
  customer support, one of whose keywords occurs in the lower-cased text, and personal
  when none does. A text containing both "unsubscribe" and "invoice" is marketing.
\<close>

theorem heuristic_classification_first_matching_bucket:
  "heuristic_classification content metadata =
     (if \<exists>k \<in> set [''unsubscribe'', ''newsletter'', ''promotion'', ''offer'', ''sale'', ''discount''].
           sublist k (lower content) then MARKETING
      else if \<exists>k \<in> set [''order'', ''receipt'', ''confirmation'', ''invoice'', ''payment'', ''account''].
           sublist k (lower content) then TRANSACTIONAL
      else if \<exists>k \<in> set [''survey'', ''feedback'', ''questionnaire'', ''rate'', ''review''].
           sublist k (lower content) then SURVEY
      else if \<exists>k \<in> set [''support'', ''help'', ''ticket'', ''issue'', ''problem'', ''assistance''].
           sublist k (lower content) then CUSTOMER_SUPPORT
      else PERSONAL)
   \<and> (sublist ''unsubscribe'' (lower content) \<and> sublist ''invoice'' (lower content)
        \<longrightarrow> heuristic_classification content metadata = MARKETING)
   \<and> (sublist ''unsubscribe'' content \<and> sublist ''invoice'' content
        \<longrightarrow> heuristic_classification content metadata = MARKETING)"
proof -
  have buckets: "heuristic_classification content metadata =
     (if \<exists>k \<in> set marketing_keywords. sublist k (lower content) then MARKETING
      else if \<exists>k \<in> set transactional_keywords. sublist k (lower content) then TRANSACTIONAL
      else if \<exists>k \<in> set survey_keywords. sublist k (lower content) then SURVEY
      else if \<exists>k \<in> set support_keywords. sublist k (lower content) then CUSTOMER_SUPPORT
      else PERSONAL)"
    by (simp only: heuristic_classification_def Let_def any_keyword_in_iff)
  have first: "heuristic_classification content metadata = MARKETING"
    if "sublist ''unsubscribe'' (lower content)"
  proof -
    have "''unsubscribe'' \<in> set marketing_keywords" by (simp add: marketing_keywords_def)
    with that have "\<exists>k \<in> set marketing_keywords. sublist k (lower content)" by blast
    then show ?thesis by (simp only: buckets if_True)
  qed
  have raw: "sublist ''unsubscribe'' (lower content)" if "sublist ''unsubscribe'' content"
  proof -
    have "lower ''unsubscribe'' = ''unsubscribe''" by (simp add: string_eval)
    with sublist_lower [OF that] show ?thesis by simp
  qed
  show ?thesis
    using buckets first raw
    unfolding marketing_keywords_def transactional_keywords_def survey_keywords_def
      support_keywords_def
    by blast
qed

theorem heuristic_classification_first_matching_bucket_witness:
  "sublist ''unsubscribe'' (lower ''Unsubscribe here. Invoice attached'')
   \<and> sublist ''invoice'' (lower ''Unsubscribe here. Invoice attached'')
   \<and> heuristic_classification ''Unsubscribe here. Invoice attached'' example_metadata = MARKETING"
proof -
  have h: "sublist ''unsubscribe'' (lower ''Unsubscribe here. Invoice attached'')
    \<and> sublist ''invoice'' (lower ''Unsubscribe here. Invoice attached'')"
    by (simp add: contains_sublist [symmetric] string_eval)
  with heuristic_classification_first_matching_bucket
    [of "''Unsubscribe here. Invoice attached''" example_metadata]
  show ?thesis by blast
qed

lemma create_fallback_result_cases:
  "create_fallback_result v email_content metadata =
     (if urls metadata = [] \<or> http_url v (hd (urls metadata)) \<noteq> None
      then \<lparr> email_category = heuristic_classification email_content metadata,
             business_entity =
               \<lparr> name = extract_company_name_heuristic email_content metadata,
                 website = (if urls metadata = [] then None else http_url v (hd (urls metadata))),
                 dpo_email = None, industry = None, location = None \<rparr>,
             data = empty_ExtractedData,
             pe_confidence_score = 0.3,
             pe_metadata = Some metadata,
             processed_at = None \<rparr>
      else ultimate_fallback metadata)"
  by (cases "urls metadata")
     (auto simp add: create_fallback_result_def make_BusinessEntity_def validate_optional_def
        make_ProcessedEmail_def split: option.splits)

text \<open>
  Claim C6 (as amended). When the provider call fails and the first URL of the metadata,
  if there is one, is accepted as an \<open>HttpUrl\<close>, the fallback result has the capitalised
  second-to-last label of the sender domain as business name ("Unknown Company" for a
  domain of fewer than two labels), the validated, normalised form of the first URL as
  website (none when the metadata has no URL) and confidence 0.3. When the first URL is
  rejected, building the business entity raises and the chain returns its last-resort
  result instead: category personal, business name "Unknown", no website, confidence 0.1.
\<close>

theorem fallback_result_on_provider_failure:
  assumes "classification_chain_invoke chain email_content metadata = Inl e"
  shows "(urls metadata = [] \<or> http_url v (hd (urls metadata)) \<noteq> None \<longrightarrow>
            name (business_entity (classify_email v chain email_content metadata)) =
              (if length (split CHR ''.'' (sender_domain metadata)) \<ge> 2
               then capitalize (split CHR ''.'' (sender_domain metadata)
                       ! (length (split CHR ''.'' (sender_domain metadata)) - 2))
               else ''Unknown Company'')
          \<and> website (business_entity (classify_email v chain email_content metadata)) =
              (if urls metadata = [] then None else http_url v (hd (urls metadata)))
          \<and> pe_confidence_score (classify_email v chain email_content metadata) = 0.3
          \<and> email_category (classify_email v chain email_content metadata) =
              heuristic_classification email_content metadata)
       \<and> (urls metadata \<noteq> [] \<and> http_url v (hd (urls metadata)) = None \<longrightarrow>
            classify_email v chain email_content metadata = ultimate_fallback metadata
          \<and> name (business_entity (classify_email v chain email_content metadata)) = ''Unknown''
          \<and> website (business_entity (classify_email v chain email_content metadata)) = None
          \<and> pe_confidence_score (classify_email v chain email_content metadata) = 0.1
          \<and> email_category (classify_email v chain email_content metadata) = PERSONAL)"
proof -
  have r: "classify_email v chain email_content metadata =
      create_fallback_result v email_content metadata"
    using assms by (simp add: classify_email_def)
  show ?thesis
    unfolding r create_fallback_result_cases
    by (simp add: extract_company_name_heuristic_def ultimate_fallback_def Let_def)
qed

theorem fallback_result_on_provider_failure_witness:
  "classification_chain_invoke failing_chain ''Big sale today''
       (shopify_metadata [''https://Shopify.com'']) = Inl ProviderError
   \<and> http_url scheme_validators ''https://Shopify.com'' = Some ''https://shopify.com/''
   \<and> name (business_entity (classify_email scheme_validators failing_chain ''Big sale today''
       (shopify_metadata [''https://Shopify.com'']))) = ''Shopify''
   \<and> website (business_entity (classify_email scheme_validators failing_chain ''Big sale today''
       (shopify_metadata [''https://Shopify.com'']))) = Some ''https://shopify.com/''
   \<and> pe_confidence_score (classify_email scheme_validators failing_chain ''Big sale today''
       (shopify_metadata [''https://Shopify.com''])) = 3 / 10"
proof -
  have h: "classification_chain_invoke failing_chain ''Big sale today''
       (shopify_metadata [''https://Shopify.com'']) = Inl ProviderError"
    by (simp add: failing_chain_def)
  have ok: "http_url scheme_validators ''https://Shopify.com'' = Some ''https://shopify.com/''"
    by (simp add: scheme_validators_def normalised_url_def string_eval)
  have u: "urls (shopify_metadata [''https://Shopify.com'']) = [''https://Shopify.com'']"
    and d: "sender_domain (shopify_metadata [''https://Shopify.com'']) = ''shopify.com''"
    by (simp_all add: shopify_metadata_def)
  have n: "capitalize (split CHR ''.'' ''shopify.com'' ! (length (split CHR ''.'' ''shopify.com'') - 2))
      = ''Shopify''"
    by (simp add: upper_char_def string_eval)
  from fallback_result_on_provider_failure [OF h, of scheme_validators] ok
  show ?thesis
    unfolding u d n using h by simp
qed

theorem fallback_result_with_invalid_first_url:
  "classification_chain_invoke failing_chain ''Big sale today''
       (shopify_metadata [''not a url'']) = Inl ProviderError
   \<and> name (business_entity (classify_email scheme_validators failing_chain ''Big sale today''
       (shopify_metadata [''not a url'']))) = ''Unknown''
   \<and> website (business_entity (classify_email scheme_validators failing_chain ''Big sale today''
       (shopify_metadata [''not a url'']))) = None
   \<and> pe_confidence_score (classify_email scheme_validators failing_chain ''Big sale today''
       (shopify_metadata [''not a url''])) = 1 / 10"
  by (simp add: classify_email_def failing_chain_def create_fallback_result_def
      make_BusinessEntity_def validate_optional_def scheme_validators_def shopify_metadata_def
      ultimate_fallback_def string_eval)

lemma dropWhile_self: "xs = [] \<or> \<not> P (hd xs) \<Longrightarrow> dropWhile P xs = xs"
  by (cases xs) auto

lemma dropWhile_head: "dropWhile P xs = [] \<or> \<not> P (hd (dropWhile P xs))"
  using hd_dropWhile [of P xs] by blast

lemma trim_right_head:
  assumes "xs = [] \<or> \<not> P (hd xs)"
  shows "rev (dropWhile P (rev xs)) = [] \<or> \<not> P (hd (rev (dropWhile P (rev xs))))"
proof (cases "rev (dropWhile P (rev xs)) = []")
  case True
  then show ?thesis by simp
next
  case False
  have "takeWhile P (rev xs) @ dropWhile P (rev xs) = rev xs" by simp
  then have "rev (dropWhile P (rev xs)) @ rev (takeWhile P (rev xs)) = xs"
    by (metis rev_append rev_rev_ident)
  with False have "hd xs = hd (rev (dropWhile P (rev xs)))" and "xs \<noteq> []"
    by (metis hd_append2, metis append_is_Nil_conv)
  with assms show ?thesis by simp
qed

lemma strip_strip: "strip (strip s) = strip s"
proof -
  let ?u = "dropWhile is_space s"
  let ?t = "rev (dropWhile is_space (rev ?u))"
  have u: "?u = [] \<or> \<not> is_space (hd ?u)" by (rule dropWhile_head)
  have t: "?t = [] \<or> \<not> is_space (hd ?t)" using u by (rule trim_right_head)
  have 1: "dropWhile is_space ?t = ?t" using t by (rule dropWhile_self)
  have "dropWhile is_space (rev ?t) = rev ?t"
    using dropWhile_head [of is_space "rev ?u"] by (simp add: dropWhile_self)
  with 1 show ?thesis by (simp add: strip_def)
qed

lemma length_truncate_content: "length (truncate_content content) \<le> 8003"
  by (simp add: truncate_content_def)

text \<open>
  Claim C7 (as amended). The DPO extraction chain hands the provider the content itself
  when it has at most 8000 characters, and otherwise its first 8000 characters followed by
  the three characters "..." (so up to 8003 characters). It returns none on every provider
  failure. On a provider answer it returns none whenever the answer, stripped of
  surrounding whitespace, is empty, is "none" in any letter case, or does not match the
  email pattern; otherwise it returns the stripped answer.
\<close>

theorem extract_dpo_email_truncates_and_validates:
  "truncate_content content =
     (if length content \<le> 8000 then content else take 8000 content @ ''...'')
   \<and> length (truncate_content content) \<le> 8003
   \<and> (\<forall>e. extraction_chain_ainvoke chain (truncate_content content) = Inl e
        \<longrightarrow> extract_dpo_email chain content = None)
   \<and> (\<forall>r. extraction_chain_ainvoke chain (truncate_content content) = Inr r
        \<longrightarrow> extract_dpo_email chain content =
            (if strip r = [] \<or> lower (strip r) = ''none'' \<or> \<not> re_match email_pattern (strip r)
             then None else Some (strip r)))"
proof -
  have trunc: "truncate_content content =
     (if length content \<le> 8000 then content else take 8000 content @ ''...'')"
    by (simp add: truncate_content_def)
  have fail: "extract_dpo_email chain content = None"
    if "extraction_chain_ainvoke chain (truncate_content content) = Inl e" for e
    using that by (simp add: extract_dpo_email_def)
  have valid: "is_valid_email (strip r) \<longleftrightarrow>
      \<not> (strip r = [] \<or> lower (strip r) = ''none'' \<or> \<not> re_match email_pattern (strip r))" for r
    by (simp only: is_valid_email_def strip_strip) simp
  have res: "extract_dpo_email chain content =
      (if strip r = [] \<or> lower (strip r) = ''none'' \<or> \<not> re_match email_pattern (strip r)
       then None else Some (strip r))"
    if "extraction_chain_ainvoke chain (truncate_content content) = Inr r" for r
    using that by (simp add: extract_dpo_email_def Let_def valid)
  from trunc length_truncate_content fail res show ?thesis by blast
qed

theorem extract_dpo_email_truncates_and_validates_witness:
  "extract_dpo_email (answering_chain (CHR '' '' # ''dpo@acme.com'')) (replicate 9000 CHR ''x'')
     = Some ''dpo@acme.com''
   \<and> extract_dpo_email (answering_chain ''None'') ''policy'' = None
   \<and> extract_dpo_email \<lparr> extraction_chain_ainvoke = (\<lambda>prompt. Inl ProviderError) \<rparr> ''policy''
     = None"
proof -
  have s: "strip (CHR '' '' # ''dpo@acme.com'') = ''dpo@acme.com''" "strip ''None'' = ''None''"
    by (simp_all add: string_eval)
  have l: "lower ''dpo@acme.com'' \<noteq> ''none''" "lower ''None'' = ''none''"
    by (simp_all add: string_eval)
  have m: "re_match email_pattern ''dpo@acme.com''"
    by (simp add: regex_eval string_eval)
  show ?thesis
    using extract_dpo_email_truncates_and_validates
            [of "replicate 9000 CHR ''x''" "answering_chain (CHR '' '' # ''dpo@acme.com'')"]
          extract_dpo_email_truncates_and_validates [of "''policy''" "answering_chain ''None''"]
          extract_dpo_email_truncates_and_validates
            [of "''policy''" "\<lparr> extraction_chain_ainvoke = (\<lambda>prompt. Inl ProviderError) \<rparr>"]
    by (simp add: answering_chain_def s l m)
qed

text \<open>
  A content of 8001 characters reaches the provider as 8003 characters, and an answer with
  a leading blank, which the email pattern rejects as it stands, is accepted once stripped.
\<close>

theorem dpo_prompt_exceeds_cap_and_padded_answer_accepted:
  "length (truncate_content (replicate 8001 CHR ''x'')) = 8003
   \<and> \<not> re_match email_pattern (CHR '' '' # ''dpo@acme.com'')
   \<and> extract_dpo_email (answering_chain (CHR '' '' # ''dpo@acme.com'')) ''policy''
       = Some ''dpo@acme.com''"
proof -
  have s: "strip (CHR '' '' # ''dpo@acme.com'') = ''dpo@acme.com''"
    by (simp add: string_eval)
  have l: "lower ''dpo@acme.com'' \<noteq> ''none''"
    by (simp add: string_eval)
  have m: "re_match email_pattern ''dpo@acme.com''"
    by (simp add: regex_eval string_eval)
  have n: "\<not> re_match email_pattern (CHR '' '' # ''dpo@acme.com'')"
    by (simp add: regex_eval string_eval)
  have v: "is_valid_email ''dpo@acme.com''"
    using m l by (simp add: is_valid_email_def s string_eval)
  have t: "length (truncate_content (replicate 8001 CHR ''x'')) = 8003"
    by (simp add: truncate_content_def)
  have "extract_dpo_email (answering_chain (CHR '' '' # ''dpo@acme.com'')) ''policy''
       = Some ''dpo@acme.com''"
    by (simp add: extract_dpo_email_def answering_chain_def s v)
  with t n show ?thesis by simp
qed

section \<open>Properties of the orchestrator\<close>

lemma enhance_business_entity_confidence:
  "pe_confidence_score (enhance_business_entity ep pe) = pe_confidence_score pe"
  by (simp add: enhance_business_entity_def Let_def split: option.splits sum.splits)













end
